theory Spec2Isabelle
  imports
    Complex_Main
    "HOL-Library.Sublist"
    "HOL-Library.Char_ord"
    "HOL-Library.List_Lexorder"
begin

section \<open>Python strings\<close>

text \<open>
  A Python \<open>str\<close> is modelled as a \<open>string\<close>, a list of characters with code points
  below 256. On these code points the regular expression class \<open>\d\<close> is the ten ASCII
  digits, and \<open>str\<close> comparison is the lexicographic order on code points.
\<close>

definition startswith :: "string \<Rightarrow> string \<Rightarrow> bool" where
  "startswith s p = prefix p s"

definition endswith :: "string \<Rightarrow> string \<Rightarrow> bool" where
  "endswith s e = suffix e s"

definition removesuffix :: "string \<Rightarrow> string \<Rightarrow> string" where
  \<comment> \<open>\<open>str.removesuffix\<close>: drops \<open>e\<close> from the end when \<open>e\<close> is non-empty and \<open>s\<close> ends with it\<close>
  "removesuffix s e =
     (if e \<noteq> [] \<and> endswith s e then take (length s - length e) s else s)"

fun rfind :: "char \<Rightarrow> string \<Rightarrow> nat option" where
  \<comment> \<open>\<open>str.rfind\<close> for a single character; \<open>None\<close> stands for the result \<open>-1\<close>\<close>
  "rfind c [] = None"
| "rfind c (x # xs) =
     (case rfind c xs of
        Some i \<Rightarrow> Some (Suc i)
      | None \<Rightarrow> if x = c then Some 0 else None)"

definition lstrip_dots :: "string \<Rightarrow> string" where
  \<comment> \<open>\<open>s.lstrip(".")\<close>\<close>
  "lstrip_dots s = dropWhile (\<lambda>c. c = CHR ''.'') s"

definition is_digit :: "char \<Rightarrow> bool" where
  "is_digit c = (c \<in> set ''0123456789'')"

definition digit_val :: "char \<Rightarrow> int" where
  "digit_val c = int (of_char c) - 48"

definition py_int :: "string \<Rightarrow> int option" where
  \<comment> \<open>\<open>int(s)\<close> on a string of decimal digits; \<open>None\<close> stands for \<open>ValueError\<close>\<close>
  "py_int s =
     (if s \<noteq> [] \<and> list_all is_digit s
      then Some (foldl (\<lambda>a c. 10 * a + digit_val c) 0 s) else None)"

section \<open>Paths (\<open>pathlib\<close>, POSIX flavour)\<close>

text \<open>
  A path is its root (\<open>''''\<close>, \<open>''/''\<close> or \<open>''//''\<close>) and its list of components, as
  \<open>PurePosixPath\<close> keeps them. \<open>suffix\<close> and \<open>stem\<close> are those of \<open>pathlib\<close>
  up to Python 3.13: the final extension starts at the last dot of the name, unless that dot
  is the first or the last character.
\<close>

datatype path = Path (root_of: string) (parts: "string list")

definition name :: "path \<Rightarrow> string" where
  "name p = (if parts p = [] then [] else last (parts p))"

definition name_suffix :: "string \<Rightarrow> string" where
  "name_suffix n =
     (case rfind CHR ''.'' n of
        None \<Rightarrow> []
      | Some i \<Rightarrow> if 0 < i \<and> i < length n - 1 then drop i n else [])"

definition name_stem :: "string \<Rightarrow> string" where
  "name_stem n =
     (case rfind CHR ''.'' n of
        None \<Rightarrow> n
      | Some i \<Rightarrow> if 0 < i \<and> i < length n - 1 then take i n else n)"

definition suffix_of :: "path \<Rightarrow> string" where
  "suffix_of p = name_suffix (name p)"

definition stem :: "path \<Rightarrow> string" where
  "stem p = name_stem (name p)"

definition parent :: "path \<Rightarrow> path" where
  "parent p = (if parts p = [] then p else Path (root_of p) (butlast (parts p)))"

fun split_slash :: "string \<Rightarrow> string list" where
  \<comment> \<open>\<open>s.split("/")\<close>\<close>
  "split_slash [] = [[]]"
| "split_slash (c # cs) =
     (if c = CHR ''/'' then [] # split_slash cs
      else (case split_slash cs of
              [] \<Rightarrow> [[c]]
            | w # ws \<Rightarrow> (c # w) # ws))"

definition parse_root :: "string \<Rightarrow> string" where
  \<comment> \<open>\<open>posixpath.splitroot\<close>: exactly two leading slashes are kept, any other number is one\<close>
  "parse_root s =
     (if startswith s ''//'' \<and> \<not> startswith s ''///'' then ''//''
      else if startswith s ''/'' then ''/'' else [])"

definition parse_parts :: "string \<Rightarrow> string list" where
  "parse_parts s = filter (\<lambda>w. w \<noteq> [] \<and> w \<noteq> ''.'') (split_slash s)"

definition mk_path :: "string \<Rightarrow> path" where
  \<comment> \<open>the constructor \<open>Path(s)\<close>\<close>
  "mk_path s = Path (parse_root s) (parse_parts s)"

fun join_slash :: "string list \<Rightarrow> string" where
  "join_slash [] = []"
| "join_slash [w] = w"
| "join_slash (w # v # ws) = w @ ''/'' @ join_slash (v # ws)"

definition str_path :: "path \<Rightarrow> string" where
  \<comment> \<open>\<open>str(p)\<close>\<close>
  "str_path p =
     (if root_of p = [] \<and> parts p = [] then ''.'' else root_of p @ join_slash (parts p))"

definition joinpath :: "path \<Rightarrow> string \<Rightarrow> path" where
  \<comment> \<open>\<open>p / s\<close>: an absolute right operand replaces the left one\<close>
  "joinpath p s =
     (if parse_root s \<noteq> [] then mk_path s else Path (root_of p) (parts p @ parse_parts s))"

section \<open>Year extraction (\<open>files_finder.py\<close>)\<close>

fun re_search :: "(string \<Rightarrow> string option) \<Rightarrow> string \<Rightarrow> string option" where
  \<comment> \<open>\<open>re.search\<close>: the match at the leftmost position where the pattern matches;
      the pattern is given by its match at the start of a string, returning the group \<open>year\<close>\<close>
  "re_search m [] = m []"
| "re_search m (c # cs) =
     (case m (c # cs) of
        Some g \<Rightarrow> Some g
      | None \<Rightarrow> re_search m cs)"

definition digits4_after :: "string \<Rightarrow> string \<Rightarrow> string option" where
  \<comment> \<open>the pattern \<open>lit(?P<year>\d{4})\<close> at the start of \<open>s\<close>\<close>
  "digits4_after lit s =
     (let r = drop (length lit) s in
      if startswith s lit \<and> 4 \<le> length r \<and> list_all is_digit (take 4 r)
      then Some (take 4 r) else None)"

definition pat_pubmed_sorted :: "string \<Rightarrow> string option" where
  "pat_pubmed_sorted = digits4_after ''pubmed_sorted_''"

definition pat_pubmed :: "string \<Rightarrow> string option" where
  "pat_pubmed = digits4_after ''pubmed_''"

definition pat_bare :: "string \<Rightarrow> string option" where
  \<comment> \<open>the pattern \<open>(?P<year>19\d{2}|20\d{2})\<close> at the start of \<open>s\<close>\<close>
  "pat_bare s =
     (if startswith s ''19'' \<and> 4 \<le> length s \<and> list_all is_digit (take 2 (drop 2 s))
      then Some (take 4 s)
      else if startswith s ''20'' \<and> 4 \<le> length s \<and> list_all is_digit (take 2 (drop 2 s))
      then Some (take 4 s)
      else None)"

definition in_year_range :: "int \<Rightarrow> bool" where
  "in_year_range y = (1900 \<le> y \<and> y \<le> 2099)"

fun extract_year_loop :: "(string \<Rightarrow> string option) list \<Rightarrow> string \<Rightarrow> int option" where
  \<comment> \<open>the \<open>for pat in (...)\<close> loop: a pattern whose leftmost match is out of range, or whose
      group does not convert, is left for the next pattern\<close>
  "extract_year_loop [] nm = None"
| "extract_year_loop (pat # pats) nm =
     (case re_search pat nm of
        None \<Rightarrow> extract_year_loop pats nm
      | Some g \<Rightarrow>
          (case py_int g of
             None \<Rightarrow> extract_year_loop pats nm
           | Some y \<Rightarrow> if in_year_range y then Some y else extract_year_loop pats nm))"

definition extract_year_from_filename :: "string \<Rightarrow> int option" where
  "extract_year_from_filename nm =
     extract_year_loop [pat_pubmed_sorted, pat_pubmed, pat_bare] nm"


section \<open>Errors\<close>

datatype error =
    FileNotFoundError | NotADirectoryError | IsADirectoryError | FileExistsError
  | PermissionError | ValueError | TypeError | IndexError | BadGzipFile | OtherError string

section \<open>Predicate library (\<open>files_finder.py\<close>)\<close>

text \<open>
  Discovery only reads the file system. What it reads is a parameter: the answers of
  \<open>exists\<close>, \<open>is_dir\<close>, \<open>glob\<close>, \<open>is_file\<close>, \<open>stat\<close> (\<open>None\<close> when
  it raises \<open>OSError\<close>) and \<open>resolve\<close>, taken not to change during one call, and the
  library function \<open>fnmatch.fnmatch\<close>.
\<close>

record stat_result =
  st_size :: int
  st_mtime :: rat

record env =
  fs_exists :: "path \<Rightarrow> bool"
  fs_is_dir :: "path \<Rightarrow> bool"
  fs_glob :: "path \<Rightarrow> string \<Rightarrow> path list"
  fs_is_file :: "path \<Rightarrow> bool"
  fs_stat :: "path \<Rightarrow> stat_result option"
  fs_resolve :: "path \<Rightarrow> path"
  fnmatch :: "string \<Rightarrow> string \<Rightarrow> bool"

definition lower_char :: "char \<Rightarrow> char" where
  \<comment> \<open>\<open>str.lower\<close> on one code point below 256\<close>
  "lower_char c =
     (let n = (of_char c :: nat) in
      if (65 \<le> n \<and> n \<le> 90) \<or> (192 \<le> n \<and> n \<le> 222 \<and> n \<noteq> 215)
      then char_of (n + 32) else c)"

definition lower :: "string \<Rightarrow> string" where
  "lower s = map lower_char s"

definition ext_ok :: "path \<Rightarrow> string option \<Rightarrow> bool" where
  "ext_ok p file_format =
     (case file_format of
        None \<Rightarrow> True
      | Some f \<Rightarrow> lower (suffix_of p) = ''.'' @ lower f)"

definition prefix_suffix_ok :: "path \<Rightarrow> string option \<Rightarrow> string option \<Rightarrow> bool" where
  "prefix_suffix_ok p pre suf =
     (let nm = name p; stm = stem p in
      if (case pre of None \<Rightarrow> False | Some q \<Rightarrow> \<not> startswith nm q) then False
      else (case suf of
              None \<Rightarrow> True
            | Some s \<Rightarrow>
                (let base_no_ext = removesuffix nm (suffix_of p)
                 in endswith stm s \<or> endswith base_no_ext s)))"

datatype patterns = PatList "string list" | PatStr string

fun truthy :: "patterns option \<Rightarrow> bool" where
  \<comment> \<open>the truth value Python gives the argument: \<open>None\<close>, \<open>[]\<close> and \<open>""\<close> are false\<close>
  "truthy None = False"
| "truthy (Some (PatList ps)) = (ps \<noteq> [])"
| "truthy (Some (PatStr s)) = (s \<noteq> [])"

fun iterate :: "patterns option \<Rightarrow> string list" where
  \<comment> \<open>what \<open>for pat in patterns\<close> yields: the elements of a list, the characters of a string\<close>
  "iterate None = []"
| "iterate (Some (PatList ps)) = ps"
| "iterate (Some (PatStr s)) = map (\<lambda>c. [c]) s"

definition patterns_ok :: "env \<Rightarrow> string \<Rightarrow> patterns option \<Rightarrow> patterns option \<Rightarrow> bool" where
  "patterns_ok e nm include_pats exclude_pats =
     (if truthy include_pats \<and> \<not> list_ex (\<lambda>pat. fnmatch e nm pat) (iterate include_pats)
      then False
      else if truthy exclude_pats \<and> list_ex (\<lambda>pat. fnmatch e nm pat) (iterate exclude_pats)
      then False
      else True)"

definition size_ok :: "env \<Rightarrow> path \<Rightarrow> int option \<Rightarrow> bool" where
  "size_ok e p min_size =
     (case min_size of
        None \<Rightarrow> True
      | Some m \<Rightarrow> (case fs_stat e p of None \<Rightarrow> False | Some st \<Rightarrow> m \<le> st_size st))"

section \<open>Data model (\<open>data_model.py\<close>)\<close>

datatype dir_arg = DirStr string | DirPath path

fun to_path :: "dir_arg \<Rightarrow> path" where
  \<comment> \<open>\<open>Path(dir)\<close>\<close>
  "to_path (DirStr s) = mk_path s"
| "to_path (DirPath p) = p"

record FindFilesArgs =
  dir :: dir_arg
  prefix_arg :: "string option"
  suffix_arg :: "string option"
  file_format :: "string option"
  recursive :: bool
  include_patterns :: "patterns option"
  exclude_patterns :: "patterns option"
  min_size_bytes :: "int option"
  max_files :: "int option"
  sort_by :: string
  reverse :: bool

definition valid_sort_by :: "string \<Rightarrow> bool" where
  "valid_sort_by s = (s \<in> {''name'', ''mtime'', ''size''})"

fun ensure_list :: "patterns option \<Rightarrow> patterns option" where
  "ensure_list None = None"
| "ensure_list (Some (PatList ps)) = Some (PatList ps)"
| "ensure_list (Some (PatStr s)) = Some (PatList [s])"

definition args_post_init :: "FindFilesArgs \<Rightarrow> error + FindFilesArgs" where
  \<comment> \<open>\<open>FindFilesArgs.__post_init__\<close>\<close>
  "args_post_init a =
     (let a1 = a\<lparr>dir := DirPath (to_path (dir a))\<rparr> in
      if \<not> valid_sort_by (sort_by a1) then Inl ValueError
      else
        let a2 = (case file_format a1 of
                    None \<Rightarrow> a1
                  | Some f \<Rightarrow> if f \<noteq> [] then a1\<lparr>file_format := Some (lstrip_dots f)\<rparr> else a1);
            a3 = a2\<lparr>include_patterns := ensure_list (include_patterns a2)\<rparr>;
            a4 = a3\<lparr>exclude_patterns := ensure_list (exclude_patterns a3)\<rparr>
        in Inr a4)"

definition file_passes :: "env \<Rightarrow> path \<Rightarrow> FindFilesArgs \<Rightarrow> bool" where
  \<comment> \<open>\<open>_file_passes\<close>, with the keyword arguments as \<open>find_files\<close> passes them on\<close>
  "file_passes e p kw =
     (ext_ok p (file_format kw)
      \<and> prefix_suffix_ok p (prefix_arg kw) (suffix_arg kw)
      \<and> patterns_ok e (name p) (include_patterns kw) (exclude_patterns kw)
      \<and> size_ok e p (min_size_bytes kw))"

section \<open>Sort-key provider and sorting (\<open>files_finder.py\<close>)\<close>

text \<open>
  The key \<open>_build_sort_key\<close> returns is a string in mode \<open>name\<close> and a number in the
  other modes, where \<open>float("inf")\<close> replaces the number when \<open>stat\<close> raises. The numeric
  keys are the rationals (every finite float and every integer is one) with a greatest
  element added; only their order is used.
\<close>

datatype sort_val = Fin rat | PosInf

instantiation sort_val :: linorder
begin

fun less_eq_sort_val :: "sort_val \<Rightarrow> sort_val \<Rightarrow> bool" where
  "less_eq_sort_val (Fin a) (Fin b) = (a \<le> b)"
| "less_eq_sort_val (Fin a) PosInf = True"
| "less_eq_sort_val PosInf (Fin b) = False"
| "less_eq_sort_val PosInf PosInf = True"

definition less_sort_val :: "sort_val \<Rightarrow> sort_val \<Rightarrow> bool" where
  "less_sort_val x y = (x \<le> y \<and> \<not> y \<le> x)"

instance
proof
  fix x y z :: sort_val
  show "(x < y) = (x \<le> y \<and> \<not> y \<le> x)"
    by (simp add: less_sort_val_def)
  show "x \<le> x"
    by (cases x) simp_all
  show "x \<le> y \<Longrightarrow> y \<le> z \<Longrightarrow> x \<le> z"
    by (cases x; cases y; cases z) simp_all
  show "x \<le> y \<Longrightarrow> y \<le> x \<Longrightarrow> x = y"
    by (cases x; cases y) simp_all
  show "x \<le> y \<or> y \<le> x"
    by (cases x; cases y) auto
qed

end

definition build_sort_key_name :: "path \<Rightarrow> string" where
  \<comment> \<open>\<open>_build_sort_key("name")\<close>: no metadata is read, nothing can raise\<close>
  "build_sort_key_name p = name p"

definition build_sort_key_stat :: "env \<Rightarrow> string \<Rightarrow> path \<Rightarrow> sort_val" where
  \<comment> \<open>\<open>_build_sort_key(sort_by)\<close> for a mode other than \<open>name\<close>: \<open>mtime\<close>, else size\<close>
  "build_sort_key_stat e mode p =
     (case fs_stat e p of
        None \<Rightarrow> PosInf
      | Some st \<Rightarrow> if mode = ''mtime'' then Fin (st_mtime st) else Fin (of_int (st_size st)))"

definition list_sort :: "('a \<Rightarrow> 'k::linorder) \<Rightarrow> bool \<Rightarrow> 'a list \<Rightarrow> 'a list" where
  \<comment> \<open>\<open>list.sort(key=..., reverse=...)\<close>: stable; with \<open>reverse\<close> the order is descending
      and equal keys still keep their original order\<close>
  "list_sort key rv xs = (if rv then rev (sort_key key (rev xs)) else sort_key key xs)"

definition sort_paths :: "env \<Rightarrow> string \<Rightarrow> bool \<Rightarrow> path list \<Rightarrow> path list" where
  \<comment> \<open>\<open>xs.sort(key=_build_sort_key(sort_by), reverse=reverse)\<close>\<close>
  "sort_paths e mode rv xs =
     (if mode = ''name'' then list_sort build_sort_key_name rv xs
      else list_sort (build_sort_key_stat e mode) rv xs)"

section \<open>Grouping by year (\<open>files_finder.py\<close>)\<close>

type_synonym buckets = "(int \<times> path list) list"

fun bucket_append :: "int \<Rightarrow> path \<Rightarrow> buckets \<Rightarrow> buckets" where
  \<comment> \<open>\<open>buckets[y].append(p)\<close> on a \<open>defaultdict(list)\<close>, which keeps insertion order\<close>
  "bucket_append y p [] = [(y, [p])]"
| "bucket_append y p ((k, ps) # bs) =
     (if k = y then (k, ps @ [p]) # bs else (k, ps) # bucket_append y p bs)"

fun fill_buckets :: "path list \<Rightarrow> buckets \<Rightarrow> buckets" where
  "fill_buckets [] bs = bs"
| "fill_buckets (p # ps) bs =
     (case extract_year_from_filename (name p) of
        None \<Rightarrow> fill_buckets ps bs
      | Some y \<Rightarrow> fill_buckets ps (bucket_append y p bs))"

definition sort_files_by_year :: "env \<Rightarrow> path list \<Rightarrow> string \<Rightarrow> error + buckets" where
  "sort_files_by_year e fls mode =
     (if \<not> valid_sort_by mode then Inl ValueError
      else
        let bs = fill_buckets fls [];
            bs' = map (\<lambda>(y, ps). (y, sort_paths e mode False ps)) bs
        in Inr (sort_key fst bs'))"

definition vs_sort_files_by_year :: "env \<Rightarrow> path list \<Rightarrow> string \<Rightarrow> error + buckets" where
  \<comment> \<open>Modelled from the spec: \<open>vectorsage_data.utils.sort_files_by_year\<close>, which
      \<open>FindFilesResult.group_by_year\<close> imports, is not among the sources. The spec names the
      grouping \<open>groupByYear\<close>, the shared operation that \<open>files_finder.sort_files_by_year\<close>
      implements, so the import is taken to yield that function.\<close>
  "vs_sort_files_by_year = sort_files_by_year"

record FindFilesResult =
  searched_dir :: path
  args :: FindFilesArgs
  files :: "path list"
  total_matched :: nat
  result_recursive :: bool
  result_notes :: "string option"
  db_file_paths :: "buckets option"

definition group_by_year :: "env \<Rightarrow> FindFilesResult \<Rightarrow> string \<Rightarrow> error + FindFilesResult" where
  \<comment> \<open>\<open>FindFilesResult.group_by_year\<close>: the object with \<open>db_file_paths\<close> overwritten\<close>
  "group_by_year e r mode =
     (case vs_sort_files_by_year e (files r) mode of
        Inl err \<Rightarrow> Inl err
      | Inr bs \<Rightarrow> Inr (r\<lparr>db_file_paths := Some bs\<rparr>))"

definition result_post_init :: "env \<Rightarrow> FindFilesResult \<Rightarrow> error + FindFilesResult" where
  \<comment> \<open>\<open>FindFilesResult.__post_init__\<close>: \<open>group_by_year()\<close> with its default mode\<close>
  "result_post_init e r = group_by_year e r ''name''"

section \<open>Discovery engine (\<open>files_finder.py\<close>)\<close>

text \<open>
  \<open>find_files\<close> returns, next to its result or error, the file-system calls it made, in
  order. The diagnostic log line is not part of the model.
\<close>

datatype fs_op =
    OpExists path | OpIsDir path | OpGlob path string | OpIsFile path | OpStat path
  | OpResolve path

definition file_passes_ops :: "env \<Rightarrow> path \<Rightarrow> FindFilesArgs \<Rightarrow> fs_op list" where
  \<comment> \<open>\<open>_size_ok\<close> is reached, and reads the metadata, only when the three predicates
      before it hold and a minimum size is set\<close>
  "file_passes_ops e p kw =
     (if ext_ok p (file_format kw)
         \<and> prefix_suffix_ok p (prefix_arg kw) (suffix_arg kw)
         \<and> patterns_ok e (name p) (include_patterns kw) (exclude_patterns kw)
         \<and> min_size_bytes kw \<noteq> None
      then [OpStat p] else [])"

definition cap_files :: "int option \<Rightarrow> path list \<Rightarrow> path list" where
  \<comment> \<open>\<open>if max_files is not None and max_files >= 0: filtered = filtered[:max_files]\<close>\<close>
  "cap_files mx xs =
     (case mx of
        None \<Rightarrow> xs
      | Some m \<Rightarrow> if 0 \<le> m then take (nat m) xs else xs)"

definition find_files :: "env \<Rightarrow> FindFilesArgs \<Rightarrow> fs_op list \<times> (error + FindFilesResult)" where
  "find_files e kw =
     (let base = to_path (dir kw) in
      if \<not> fs_exists e base then ([OpExists base], Inl FileNotFoundError)
      else if \<not> fs_is_dir e base then ([OpExists base, OpIsDir base], Inl NotADirectoryError)
      else
        let pattern = (if recursive kw then ''**/*'' else ''*'');
            globbed = fs_glob e base pattern;
            candidates = filter (fs_is_file e) globbed;
            filtered = map (fs_resolve e) (filter (\<lambda>p. file_passes e p kw) candidates);
            ops = [OpExists base, OpIsDir base, OpGlob base pattern]
                  @ map OpIsFile globbed
                  @ concat (map (\<lambda>p. file_passes_ops e p kw
                                     @ (if file_passes e p kw then [OpResolve p] else []))
                                candidates)
        in
          if \<not> valid_sort_by (sort_by kw) then (ops, Inl ValueError)
          else
            let sorted = sort_paths e (sort_by kw) (reverse kw) filtered;
                ops' = ops @ (if sort_by kw = ''name'' then [] else map OpStat filtered);
                final = cap_files (max_files kw) sorted
            in
              (case args_post_init (kw\<lparr>dir := DirPath base\<rparr>) of
                 Inl err \<Rightarrow> (ops', Inl err)
               | Inr args_obj \<Rightarrow>
                   (ops',
                    result_post_init e
                      \<lparr>searched_dir = base, args = args_obj, files = final,
                       total_matched = length final, result_recursive = recursive kw,
                       result_notes = None, db_file_paths = None\<rparr>)))"

section \<open>Per-item decompression (\<open>unzip_files.py\<close>)\<close>

text \<open>
  Decompression writes files, so the file system is a state here: a map from paths, as
  written, to directories and files with their bytes. A path without components is the root
  or the current directory, which exist. The environment supplies \<open>resolve\<close>, the gzip
  decoder (the bytes it produces and, when the stream is corrupt or truncated, the error
  that stops it) and the faults the operating system may raise on opening a path for
  reading or on creating or writing one (permissions, a full disk).
\<close>

datatype node = Dir | File string

type_synonym fsmap = "path \<rightharpoonup> node"

record uenv =
  u_resolve :: "path \<Rightarrow> path"
  gunzip :: "string \<Rightarrow> string \<times> error option"
  fault_read :: "path \<Rightarrow> error option"
  fault_write :: "path \<Rightarrow> error option"

datatype log_entry = LogSkipping path | LogExtracted path | LogError string error

type_synonym file_info = "string \<times> string \<times> bool"

definition node_at :: "fsmap \<Rightarrow> path \<Rightarrow> node option" where
  "node_at fs p = (if parts p = [] then Some Dir else fs p)"

definition open_rb :: "uenv \<Rightarrow> fsmap \<Rightarrow> path \<Rightarrow> error + unit" where
  \<comment> \<open>\<open>gzip.open(p, "rb")\<close>: the file is opened at once, its content is read later\<close>
  "open_rb e fs p =
     (case fault_read e p of
        Some err \<Rightarrow> Inl err
      | None \<Rightarrow>
          (case node_at fs p of
             None \<Rightarrow> Inl FileNotFoundError
           | Some Dir \<Rightarrow> Inl IsADirectoryError
           | Some (File d) \<Rightarrow> Inr ()))"

definition open_wb :: "uenv \<Rightarrow> fsmap \<Rightarrow> path \<Rightarrow> error + fsmap" where
  \<comment> \<open>\<open>open(p, "wb")\<close>: creates the file, or empties the one that is there\<close>
  "open_wb e fs p =
     (case fault_write e p of
        Some err \<Rightarrow> Inl err
      | None \<Rightarrow>
          (case node_at fs p of
             Some Dir \<Rightarrow> Inl IsADirectoryError
           | Some (File d) \<Rightarrow> Inr (fs(p \<mapsto> File []))
           | None \<Rightarrow>
               (case node_at fs (parent p) of
                  None \<Rightarrow> Inl FileNotFoundError
                | Some (File d) \<Rightarrow> Inl NotADirectoryError
                | Some Dir \<Rightarrow> Inr (fs(p \<mapsto> File [])))))"

definition read_all :: "fsmap \<Rightarrow> path \<Rightarrow> string" where
  "read_all fs p = (case fs p of Some (File d) \<Rightarrow> d | _ \<Rightarrow> [])"

definition unzip_try ::
  "uenv \<Rightarrow> fsmap \<Rightarrow> file_info \<Rightarrow> fsmap \<times> log_entry list \<times> (error + string option)" where
  \<comment> \<open>the body of the \<open>try\<close> in \<open>unzip_file\<close>; \<open>Inl\<close> is an exception raised inside it\<close>
  "unzip_try e fs file_info =
     (case file_info of (source_path, dest_path, overwrite) \<Rightarrow>
        let source_p = mk_path source_path; dest_p = mk_path dest_path in
        if node_at fs dest_p \<noteq> None \<and> \<not> overwrite
        then (fs, [LogSkipping dest_p], Inr None)
        else
          (case open_rb e fs source_p of
             Inl err \<Rightarrow> (fs, [], Inl err)
           | Inr u \<Rightarrow>
               (case open_wb e fs dest_p of
                  Inl err \<Rightarrow> (fs, [], Inl err)
                | Inr fs1 \<Rightarrow>
                    (case gunzip e (read_all fs1 source_p) of (out, failure) \<Rightarrow>
                       let fs2 = fs1(dest_p \<mapsto> File out) in
                       (case failure of
                          Some err \<Rightarrow> (fs2, [], Inl err)
                        | None \<Rightarrow>
                            (fs2, [LogExtracted dest_p], Inr (Some (str_path dest_p))))))))"

definition unzip_file ::
  "uenv \<Rightarrow> fsmap \<Rightarrow> file_info \<Rightarrow> fsmap \<times> log_entry list \<times> (error + string option)" where
  \<comment> \<open>\<open>except Exception\<close> logs the error and leaves \<open>extracted_file\<close> at \<open>None\<close>\<close>
  "unzip_file e fs file_info =
     (case unzip_try e fs file_info of
        (fs', lg, Inl err) \<Rightarrow> (fs', lg @ [LogError (fst file_info) err], Inr None)
      | (fs', lg, Inr extracted_file) \<Rightarrow> (fs', lg, Inr extracted_file))"

section \<open>Batch decompression (\<open>unzip_files.py\<close>)\<close>

definition os_mkdir :: "uenv \<Rightarrow> fsmap \<Rightarrow> path \<Rightarrow> error + fsmap" where
  "os_mkdir e fs p =
     (if node_at fs p \<noteq> None then Inl FileExistsError
      else (case node_at fs (parent p) of
              None \<Rightarrow> Inl FileNotFoundError
            | Some (File d) \<Rightarrow> Inl NotADirectoryError
            | Some Dir \<Rightarrow>
                (case fault_write e p of
                   Some err \<Rightarrow> Inl err
                 | None \<Rightarrow> Inr (fs(p \<mapsto> Dir)))))"

definition mkdir_exist_ok :: "uenv \<Rightarrow> fsmap \<Rightarrow> path \<Rightarrow> error + fsmap" where
  \<comment> \<open>\<open>p.mkdir(parents=False, exist_ok=True)\<close>\<close>
  "mkdir_exist_ok e fs p =
     (case os_mkdir e fs p of
        Inr fs' \<Rightarrow> Inr fs'
      | Inl err \<Rightarrow>
          if err = FileNotFoundError then Inl err
          else if node_at fs p = Some Dir then Inr fs else Inl err)"

function mkdir_parents :: "uenv \<Rightarrow> fsmap \<Rightarrow> path \<Rightarrow> error + fsmap" where
  \<comment> \<open>\<open>p.mkdir(parents=True, exist_ok=True)\<close>\<close>
  "mkdir_parents e fs p =
     (case os_mkdir e fs p of
        Inr fs' \<Rightarrow> Inr fs'
      | Inl err \<Rightarrow>
          if err = FileNotFoundError then
            (if parent p = p then Inl err
             else (case mkdir_parents e fs (parent p) of
                     Inl err' \<Rightarrow> Inl err'
                   | Inr fs1 \<Rightarrow> mkdir_exist_ok e fs1 p))
          else if node_at fs p = Some Dir then Inr fs else Inl err)"
  by pat_completeness auto
termination
proof (relation "measure (\<lambda>(e, fs, p). length (parts p))")
  show "wf (measure (\<lambda>(e, fs, p). length (parts p)))"
    by simp
next
  fix e :: uenv and fs :: fsmap and p :: path and err :: error
  assume "parent p \<noteq> p"
  then have "parts p \<noteq> []"
    by (auto simp: parent_def)
  then show "((e, fs, parent p), (e, fs, p)) \<in> measure (\<lambda>(e, fs, p). length (parts p))"
    by (simp add: parent_def)
qed

datatype item = ItemStr string | ItemTriple string string bool | ItemOther

datatype source_arg = SrcList "item list" | SrcNotList

fun triple_of :: "item \<Rightarrow> file_info option" where
  \<comment> \<open>\<open>isinstance(item, tuple) and len(item) == 3\<close>\<close>
  "triple_of (ItemTriple s d ow) = Some (s, d, ow)"
| "triple_of (ItemStr s) = None"
| "triple_of ItemOther = None"

fun str_of :: "item \<Rightarrow> string option" where
  \<comment> \<open>\<open>isinstance(item, str)\<close>\<close>
  "str_of (ItemStr s) = Some s"
| "str_of (ItemTriple s d ow) = None"
| "str_of ItemOther = None"

definition destination_for :: "uenv \<Rightarrow> string \<Rightarrow> string option \<Rightarrow> path" where
  \<comment> \<open>lines 65 to 71: the directory the bare paths are extracted to;
      \<open>if destination_directory:\<close> is false for \<open>None\<close> and for the empty string\<close>
  "destination_for e first destination_directory =
     (let first_file = u_resolve e (mk_path first);
          default_dest_dir = joinpath (parent first_file) ''unzipped''
      in case destination_directory of
           None \<Rightarrow> default_dest_dir
         | Some d \<Rightarrow> if d \<noteq> [] then u_resolve e (mk_path d) else default_dest_dir)"

definition work_item :: "uenv \<Rightarrow> path \<Rightarrow> bool \<Rightarrow> string \<Rightarrow> file_info" where
  \<comment> \<open>lines 77 to 81: the tuple made for one bare path\<close>
  "work_item e destination_path overwrite file =
     (str_path (u_resolve e (mk_path file)),
      str_path (joinpath destination_path (stem (mk_path file))),
      overwrite)"

definition normalize_input ::
  "uenv \<Rightarrow> fsmap \<Rightarrow> source_arg \<Rightarrow> string option \<Rightarrow> bool
     \<Rightarrow> error + (fsmap \<times> file_info list \<times> path)" where
  \<comment> \<open>lines 53 to 96 of \<open>unzip_xml_gz_files\<close>: the work items, the directory reported,
      and the file system after \<open>mkdir\<close>\<close>
  "normalize_input e fs source_directory destination_directory overwrite =
     (case source_directory of
        SrcNotList \<Rightarrow> Inl TypeError
      | SrcList items \<Rightarrow>
          (case (case those (map triple_of items) of
                   Some tuples_src \<Rightarrow> Inr (fs, tuples_src)
                 | None \<Rightarrow>
                     (case those (map str_of items) of
                        None \<Rightarrow> Inl ValueError
                      | Some str_list \<Rightarrow>
                          (case str_list of
                             [] \<Rightarrow> Inl IndexError
                           | first # rest \<Rightarrow>
                               (let destination_path =
                                      destination_for e first destination_directory
                                in case mkdir_parents e fs destination_path of
                                     Inl err \<Rightarrow> Inl err
                                   | Inr fs' \<Rightarrow>
                                       Inr (fs', map (work_item e destination_path overwrite)
                                                     str_list)))))
           of
             Inl err \<Rightarrow> Inl err
           | Inr (fs', file_paths) \<Rightarrow>
               (case file_paths of
                  [] \<Rightarrow> Inl IndexError
                | fp # rest \<Rightarrow> Inr (fs', file_paths, parent (mk_path (fst (snd fp)))))))"

text \<open>
  The worker pool is modelled by running the work items one after the other, in the order
  of the list. An exception leaving a worker would be raised again by the pool's iterator,
  hence the error branch. The order of the collected results is the order of completion,
  which the pool does not fix; the model's order is one of them.
\<close>

fun run_pool ::
  "uenv \<Rightarrow> fsmap \<Rightarrow> file_info list
     \<Rightarrow> fsmap \<times> log_entry list \<times> (error + string option list)" where
  "run_pool e fs [] = (fs, [], Inr [])"
| "run_pool e fs (w # ws) =
     (case unzip_file e fs w of
        (fs1, lg1, Inl err) \<Rightarrow> (fs1, lg1, Inl err)
      | (fs1, lg1, Inr r) \<Rightarrow>
          (case run_pool e fs1 ws of
             (fs2, lg2, Inl err) \<Rightarrow> (fs2, lg1 @ lg2, Inl err)
           | (fs2, lg2, Inr rs) \<Rightarrow> (fs2, lg1 @ lg2, Inr (r # rs))))"

definition filter_none :: "string option list \<Rightarrow> string list" where
  \<comment> \<open>\<open>filter(None, results)\<close> keeps the results that are true: neither \<open>None\<close> nor empty\<close>
  "filter_none rs =
     List.map_filter (\<lambda>r. case r of None \<Rightarrow> None | Some s \<Rightarrow> if s \<noteq> [] then Some s else None) rs"

definition unzip_xml_gz_files ::
  "uenv \<Rightarrow> fsmap \<Rightarrow> source_arg \<Rightarrow> string option \<Rightarrow> bool
     \<Rightarrow> error + (fsmap \<times> log_entry list \<times> string \<times> string list)" where
  "unzip_xml_gz_files e fs source_directory destination_directory overwrite =
     (case normalize_input e fs source_directory destination_directory overwrite of
        Inl err \<Rightarrow> Inl err
      | Inr (fs1, file_paths, destination_path) \<Rightarrow>
          (case run_pool e fs1 file_paths of
             (fs2, lg, Inl err) \<Rightarrow> Inl err
           | (fs2, lg, Inr rs) \<Rightarrow> Inr (fs2, lg, str_path destination_path, filter_none rs)))"

section \<open>The extractor as the specification words it\<close>



section \<open>Sample inputs\<close>

fun fnmatch_wild :: "string \<Rightarrow> string \<Rightarrow> bool" where
  \<comment> \<open>shell-style matching of a name against a pattern made of literal characters,
      \<open>*\<close> and \<open>?\<close>: what \<open>fnmatch.fnmatch\<close> computes on POSIX for a pattern without a
      bracket expression; the samples use no other pattern\<close>
  "fnmatch_wild [] [] = True"
| "fnmatch_wild [] (c # cs) = False"
| "fnmatch_wild (p # ps) s =
     (if p = CHR ''*''
      then fnmatch_wild ps s \<or> (case s of [] \<Rightarrow> False | c # cs \<Rightarrow> fnmatch_wild (p # ps) cs)
      else (case s of
              [] \<Rightarrow> False
            | c # cs \<Rightarrow> (p = CHR ''?'' \<or> p = c) \<and> fnmatch_wild ps cs))"

definition data_dir :: path where
  "data_dir = Path ''/'' [''data'']"

definition in_data :: "string \<Rightarrow> path" where
  "in_data nm = Path ''/'' [''data'', nm]"

definition dir_env :: "(string \<times> stat_result) list \<Rightarrow> env" where
  \<comment> \<open>the directory \<open>/data\<close> holding the listed regular files with their metadata, no
      subdirectory and no symbolic link; \<open>glob\<close> lists them in the order given\<close>
  "dir_env entries =
     \<lparr>fs_exists = (\<lambda>p. p = data_dir \<or> p \<in> set (map (in_data \<circ> fst) entries)),
      fs_is_dir = (\<lambda>p. p = data_dir),
      fs_glob = (\<lambda>p pat. if p = data_dir then map (in_data \<circ> fst) entries else []),
      fs_is_file = (\<lambda>p. p \<in> set (map (in_data \<circ> fst) entries)),
      fs_stat = (\<lambda>p. map_of (map (\<lambda>(n, st). (in_data n, st)) entries) p),
      fs_resolve = (\<lambda>p. p),
      fnmatch = (\<lambda>nm pat. fnmatch_wild pat nm)\<rparr>"

definition default_args :: "dir_arg \<Rightarrow> FindFilesArgs" where
  \<comment> \<open>\<open>find_files(dir)\<close> with every other parameter at its default\<close>
  "default_args d =
     \<lparr>dir = d, prefix_arg = None, suffix_arg = None, file_format = None, recursive = False,
      include_patterns = None, exclude_patterns = None, min_size_bytes = None,
      max_files = None, sort_by = ''name'', reverse = False\<rparr>"

definition txt_csv_entries :: "(string \<times> stat_result) list" where
  \<comment> \<open>the scenario of the specification: \<open>a.txt\<close> of 50 bytes, \<open>b.txt\<close> of 150 bytes,
      \<open>c.csv\<close> of 200 bytes\<close>
  "txt_csv_entries =
     [(''a.txt'', \<lparr>st_size = 50, st_mtime = 300\<rparr>),
      (''b.txt'', \<lparr>st_size = 150, st_mtime = 100\<rparr>),
      (''c.csv'', \<lparr>st_size = 200, st_mtime = 200\<rparr>)]"

definition pubmed_entries :: "(string \<times> stat_result) list" where
  "pubmed_entries =
     [(''report_2021.csv'', \<lparr>st_size = 10, st_mtime = 1\<rparr>),
      (''pubmed_sorted_1998_and_2020.xml'', \<lparr>st_size = 20, st_mtime = 2\<rparr>),
      (''notes.txt'', \<lparr>st_size = 30, st_mtime = 3\<rparr>),
      (''pubmed_2021_b.xml'', \<lparr>st_size = 40, st_mtime = 4\<rparr>)]"

definition symlink_env :: env where
  \<comment> \<open>\<open>/data\<close> holds one entry, \<open>link.txt\<close>, a symbolic link to the regular file
      \<open>/store/blob.bin\<close>: \<open>is_file\<close> and \<open>stat\<close> follow the link, \<open>resolve\<close>
      returns its target\<close>
  "symlink_env =
     \<lparr>fs_exists = (\<lambda>p. p \<in> {data_dir, in_data ''link.txt'', Path ''/'' [''store''],
                              Path ''/'' [''store'', ''blob.bin'']}),
      fs_is_dir = (\<lambda>p. p \<in> {data_dir, Path ''/'' [''store'']}),
      fs_glob = (\<lambda>p pat. if p = data_dir then [in_data ''link.txt''] else []),
      fs_is_file = (\<lambda>p. p \<in> {in_data ''link.txt'', Path ''/'' [''store'', ''blob.bin'']}),
      fs_stat = (\<lambda>p. if p \<in> {in_data ''link.txt'', Path ''/'' [''store'', ''blob.bin'']}
                      then Some \<lparr>st_size = 7, st_mtime = 5\<rparr> else None),
      fs_resolve = (\<lambda>p. if p = in_data ''link.txt'' then Path ''/'' [''store'', ''blob.bin'']
                         else p),
      fnmatch = (\<lambda>nm pat. fnmatch_wild pat nm)\<rparr>"

definition result_files :: "fs_op list \<times> (error + FindFilesResult) \<Rightarrow> error + path list" where
  \<comment> \<open>the \<open>files\<close> of what \<open>find_files\<close> returned, or the error it raised\<close>
  "result_files out = map_sum (\<lambda>err. err) files (snd out)"

definition sample_uenv :: uenv where
  \<comment> \<open>the working directory is \<open>/home\<close> and there is no symbolic link; the decoder is a
      stand-in that takes the bytes after the tag \<open>gz:\<close> and rejects anything else\<close>
  "sample_uenv =
     \<lparr>u_resolve = (\<lambda>p. if root_of p = [] then Path ''/'' (''home'' # parts p) else p),
      gunzip = (\<lambda>d. if take 3 d = ''gz:'' then (drop 3 d, None) else ([], Some BadGzipFile)),
      fault_read = (\<lambda>p. None),
      fault_write = (\<lambda>p. None)\<rparr>"

definition sample_fs :: fsmap where
  "sample_fs =
     map_of [(Path ''/'' [''data''], Dir),
             (Path ''/'' [''data'', ''a.xml.gz''], File ''gz:<doc/>''),
             (Path ''/'' [''data'', ''notes.txt''], File ''plain''),
             (Path ''/'' [''out''], Dir),
             (Path ''/'' [''out'', ''old.xml''], File ''<old/>'')]"

definition work_of ::
  "error + (fsmap \<times> file_info list \<times> path) \<Rightarrow> error + (file_info list \<times> path)" where
  \<comment> \<open>what \<open>normalize_input\<close> yields, without the file system\<close>
  "work_of out = map_sum (\<lambda>err. err) (\<lambda>(fs, file_paths, d). (file_paths, d)) out"

definition report_of ::
  "error + (fsmap \<times> log_entry list \<times> string \<times> string list)
     \<Rightarrow> error + (log_entry list \<times> string \<times> string list)" where
  \<comment> \<open>what \<open>unzip_xml_gz_files\<close> yields, without the file system\<close>
  "report_of out = map_sum (\<lambda>err. err) (\<lambda>(fs, lg, d, xs). (lg, d, xs)) out"

section \<open>Year extraction: priority of the patterns\<close>

text \<open>
  What \<open>re_search\<close> returns is the group at the leftmost position where the pattern
  matches: no earlier position matches, and later ones are never looked at.
\<close>

lemma re_search_leftmost:
  "re_search m s = Some g \<longleftrightarrow>
     (\<exists>i\<le>length s. m (drop i s) = Some g \<and> (\<forall>j<i. m (drop j s) = None))"
proof (induction s)
  case Nil
  then show ?case by simp
next
  case (Cons c cs)
  show ?case
  proof (cases "m (c # cs)")
    case (Some h)
    have "(\<exists>i\<le>length (c # cs). m (drop i (c # cs)) = Some g
             \<and> (\<forall>j<i. m (drop j (c # cs)) = None)) \<longleftrightarrow> h = g"
    proof
      assume "\<exists>i\<le>length (c # cs). m (drop i (c # cs)) = Some g
                \<and> (\<forall>j<i. m (drop j (c # cs)) = None)"
      then obtain i where i: "m (drop i (c # cs)) = Some g"
        "\<forall>j<i. m (drop j (c # cs)) = None"
        by blast
      have "i = 0"
      proof (rule ccontr)
        assume "i \<noteq> 0"
        then have "m (drop 0 (c # cs)) = None" using i(2) by blast
        with Some show False by simp
      qed
      with i(1) Some show "h = g" by simp
    next
      assume "h = g"
      with Some have "m (drop 0 (c # cs)) = Some g \<and> (\<forall>j<0. m (drop j (c # cs)) = None)"
        by simp
      then show "\<exists>i\<le>length (c # cs). m (drop i (c # cs)) = Some g
                   \<and> (\<forall>j<i. m (drop j (c # cs)) = None)"
        by blast
    qed
    with Some show ?thesis by simp
  next
    case None
    have "(\<exists>i\<le>length (c # cs). m (drop i (c # cs)) = Some g
             \<and> (\<forall>j<i. m (drop j (c # cs)) = None))
          \<longleftrightarrow> (\<exists>i\<le>length cs. m (drop i cs) = Some g \<and> (\<forall>j<i. m (drop j cs) = None))"
      (is "?L \<longleftrightarrow> ?R")
    proof
      assume ?L
      then obtain i where i: "i \<le> length (c # cs)" "m (drop i (c # cs)) = Some g"
        "\<forall>j<i. m (drop j (c # cs)) = None" by blast
      from i(2) None have "i \<noteq> 0" by (cases i) auto
      then obtain k where k: "i = Suc k" by (cases i) auto
      have "\<forall>j<k. m (drop j cs) = None"
      proof (intro allI impI)
        fix j assume "j < k"
        then have "Suc j < i" using k by simp
        then have "m (drop (Suc j) (c # cs)) = None" using i(3) by blast
        then show "m (drop j cs) = None" by simp
      qed
      with i k show ?R by auto
    next
      assume ?R
      then obtain i where i: "i \<le> length cs" "m (drop i cs) = Some g"
        "\<forall>j<i. m (drop j cs) = None"
        by blast
      have "\<forall>j<Suc i. m (drop j (c # cs)) = None"
      proof (intro allI impI)
        fix j assume "j < Suc i"
        show "m (drop j (c # cs)) = None"
        proof (cases j)
          case 0 with None show ?thesis by simp
        next
          case (Suc j') with \<open>j < Suc i\<close> i(3) show ?thesis by simp
        qed
      qed
      with i show ?L by (intro exI[of _ "Suc i"]) simp
    qed
    with None Cons.IH show ?thesis by simp
  qed
qed









section \<open>The suffix predicate\<close>

lemma name_stem_suffix: "name_stem n @ name_suffix n = n"
  by (simp add: name_stem_def name_suffix_def split: option.splits)

lemma removesuffix_name_suffix: "removesuffix n (name_suffix n) = name_stem n"
proof (cases "name_suffix n = []")
  case True
  with name_stem_suffix[of n] show ?thesis by (simp add: removesuffix_def)
next
  case False
  have "suffix (name_suffix n) n"
    using name_stem_suffix[of n] by (metis suffixI)
  moreover have "take (length n - length (name_suffix n)) n = name_stem n"
    using name_stem_suffix[of n]
    by (metis add_diff_cancel_right' append_eq_conv_conj length_append)
  ultimately show ?thesis using False by (simp add: removesuffix_def endswith_def)
qed

text \<open>
  C8, as amended. The two strings the suffix predicate tests are the same string for every
  filename: the name with its final extension removed is the stem. The two checks therefore
  always agree, and the predicate holds exactly when the prefix check holds and the stem
  ends with the suffix.
\<close>

theorem suffix_checks_agree:
  "removesuffix (name p) (suffix_of p) = stem p
   \<and> endswith (removesuffix (name p) (suffix_of p)) s = endswith (stem p) s
   \<and> prefix_suffix_ok p pre (Some s) =
       ((case pre of None \<Rightarrow> True | Some q \<Rightarrow> startswith (name p) q) \<and> endswith (stem p) s)"
  by (auto simp: prefix_suffix_ok_def suffix_of_def stem_def removesuffix_name_suffix Let_def
           split: option.splits)

theorem suffix_checks_agree_witness:
  "removesuffix (name (in_data ''archive.tar.gz'')) (suffix_of (in_data ''archive.tar.gz''))
     = ''archive.tar''
   \<and> stem (in_data ''archive.tar.gz'') = ''archive.tar''
   \<and> prefix_suffix_ok (in_data ''archive.tar.gz'') (Some ''arch'') (Some ''tar'')"
proof -
  have h: "stem (in_data ''archive.tar.gz'') = ''archive.tar''"
    by code_simp
  have q: "startswith (name (in_data ''archive.tar.gz'')) ''arch''"
    by code_simp
  have r: "endswith ''archive.tar'' ''tar''"
    by code_simp
  from suffix_checks_agree[of "in_data ''archive.tar.gz''" "''tar''" "Some ''arch''"] h q r
  show ?thesis by simp
qed

text \<open>
  C8 as stated fails: there is no filename and suffix on which one check passes and the
  other fails.
\<close>

theorem suffix_checks_never_disagree:
  "\<not> (\<exists>p s. endswith (stem p) s \<noteq> endswith (removesuffix (name p) (suffix_of p)) s)"
  by (simp add: suffix_of_def stem_def removesuffix_name_suffix)

section \<open>Sorting: where unreadable entries go\<close>

lemma le_PosInf: "x \<le> PosInf"
  by (cases x) simp_all

lemma PosInf_le: "PosInf \<le> x \<longleftrightarrow> x = PosInf"
  by (cases x) simp_all

lemma insort_key_before:
  "\<forall>b\<in>set B. k x \<le> k b \<Longrightarrow> insort_key k x (A @ B) = insort_key k x A @ B"
proof (induction A)
  case Nil
  then show ?case by (cases B) simp_all
next
  case (Cons a A)
  then show ?case by simp
qed

lemma insort_key_PosInf:
  "k x = PosInf \<Longrightarrow> \<forall>a\<in>set A. k a \<noteq> PosInf \<Longrightarrow> \<forall>b\<in>set B. k b = PosInf
     \<Longrightarrow> insort_key k x (A @ B) = A @ x # B"
proof (induction A)
  case Nil
  then show ?case by (cases B) simp_all
next
  case (Cons a A)
  then show ?case by (simp add: PosInf_le)
qed

lemma sort_key_PosInf_last:
  fixes k :: "'a \<Rightarrow> sort_val"
  shows "sort_key k xs =
           sort_key k (filter (\<lambda>x. k x \<noteq> PosInf) xs) @ filter (\<lambda>x. k x = PosInf) xs"
proof (induction xs)
  case Nil
  then show ?case by simp
next
  case (Cons x xs)
  let ?A = "sort_key k (filter (\<lambda>x. k x \<noteq> PosInf) xs)"
  let ?B = "filter (\<lambda>x. k x = PosInf) xs"
  have step: "sort_key k (x # xs) = insort_key k x (?A @ ?B)"
    using Cons.IH by simp
  show ?case
  proof (cases "k x = PosInf")
    case True
    have "insort_key k x (?A @ ?B) = ?A @ x # ?B"
      by (rule insort_key_PosInf) (use True in auto)
    with step True show ?thesis by simp
  next
    case False
    have "insort_key k x (?A @ ?B) = insort_key k x ?A @ ?B"
      by (rule insort_key_before) (simp add: le_PosInf)
    with step False show ?thesis by simp
  qed
qed

lemma list_sort_forward_PosInf:
  fixes k :: "'a \<Rightarrow> sort_val"
  shows "list_sort k False xs =
           list_sort k False (filter (\<lambda>x. k x \<noteq> PosInf) xs) @ filter (\<lambda>x. k x = PosInf) xs"
  using sort_key_PosInf_last[of k xs] by (simp add: list_sort_def)

lemma list_sort_reverse_PosInf:
  fixes k :: "'a \<Rightarrow> sort_val"
  shows "list_sort k True xs =
           filter (\<lambda>x. k x = PosInf) xs @ list_sort k True (filter (\<lambda>x. k x \<noteq> PosInf) xs)"
proof -
  have "sort_key k (rev xs) =
          sort_key k (filter (\<lambda>x. k x \<noteq> PosInf) (rev xs))
          @ filter (\<lambda>x. k x = PosInf) (rev xs)"
    by (rule sort_key_PosInf_last)
  then have "rev (sort_key k (rev xs)) =
          rev (filter (\<lambda>x. k x = PosInf) (rev xs))
          @ rev (sort_key k (filter (\<lambda>x. k x \<noteq> PosInf) (rev xs)))"
    by simp
  then show ?thesis by (simp add: list_sort_def rev_filter)
qed

lemma stat_key_PosInf: "build_sort_key_stat e mode p = PosInf \<longleftrightarrow> fs_stat e p = None"
  by (simp add: build_sort_key_stat_def split: option.splits)

lemma set_list_sort: "set (list_sort k rv xs) = set xs"
  by (simp add: list_sort_def)

lemma set_sort_paths: "set (sort_paths e mode rv xs) = set xs"
  by (simp add: sort_paths_def set_list_sort)

text \<open>
  C2, as amended. In the modes \<open>mtime\<close> and \<open>size\<close> a path whose metadata cannot be read
  gets positive infinity as its key. With \<open>reverse\<close> false the sorted output is the
  readable paths in order followed by the unreadable ones; with \<open>reverse\<close> true the whole
  order is reversed, so the unreadable paths come first, before the readable ones.
\<close>

theorem unreadable_sorted_by_direction:
  assumes "mode = ''mtime'' \<or> mode = ''size''"
  shows "(fs_stat e p = None \<longrightarrow> build_sort_key_stat e mode p = PosInf)
       \<and> sort_paths e mode False xs =
           sort_paths e mode False (filter (\<lambda>p. fs_stat e p \<noteq> None) xs)
           @ filter (\<lambda>p. fs_stat e p = None) xs
       \<and> sort_paths e mode True xs =
           filter (\<lambda>p. fs_stat e p = None) xs
           @ sort_paths e mode True (filter (\<lambda>p. fs_stat e p \<noteq> None) xs)"
proof -
  from assms have m: "mode \<noteq> ''name''" by auto
  have f: "sort_paths e mode False xs =
           sort_paths e mode False (filter (\<lambda>p. fs_stat e p \<noteq> None) xs)
           @ filter (\<lambda>p. fs_stat e p = None) xs"
    using list_sort_forward_PosInf[of "build_sort_key_stat e mode" xs] m
    by (simp add: sort_paths_def stat_key_PosInf)
  have r: "sort_paths e mode True xs =
           filter (\<lambda>p. fs_stat e p = None) xs
           @ sort_paths e mode True (filter (\<lambda>p. fs_stat e p \<noteq> None) xs)"
    using list_sort_reverse_PosInf[of "build_sort_key_stat e mode" xs] m
    by (simp add: sort_paths_def stat_key_PosInf)
  from f r show ?thesis by (simp add: stat_key_PosInf)
qed

theorem unreadable_sorted_by_direction_witness:
  "fs_stat (dir_env txt_csv_entries) (in_data ''gone.txt'') = None
   \<and> build_sort_key_stat (dir_env txt_csv_entries) ''size'' (in_data ''gone.txt'') = PosInf
   \<and> sort_paths (dir_env txt_csv_entries) ''size'' False
         [in_data ''gone.txt'', in_data ''c.csv'', in_data ''a.txt'']
       = [in_data ''a.txt'', in_data ''c.csv''] @ [in_data ''gone.txt'']"
proof -
  have m: "''size'' = ''mtime'' \<or> ''size'' = ''size''"
    by simp
  have g: "fs_stat (dir_env txt_csv_entries) (in_data ''gone.txt'') = None"
    by code_simp
  have unreadable:
    "filter (\<lambda>p. fs_stat (dir_env txt_csv_entries) p = None)
       [in_data ''gone.txt'', in_data ''c.csv'', in_data ''a.txt''] = [in_data ''gone.txt'']"
    by code_simp
  have readable:
    "sort_paths (dir_env txt_csv_entries) ''size'' False
       (filter (\<lambda>p. fs_stat (dir_env txt_csv_entries) p \<noteq> None)
          [in_data ''gone.txt'', in_data ''c.csv'', in_data ''a.txt''])
     = [in_data ''a.txt'', in_data ''c.csv'']"
    by code_simp
  from unreadable_sorted_by_direction[OF m, of "dir_env txt_csv_entries" "in_data ''gone.txt''"
         "[in_data ''gone.txt'', in_data ''c.csv'', in_data ''a.txt'']"]
       g unreadable readable
  show ?thesis by simp
qed

text \<open>
  C2 as stated fails: sorted by size with \<open>reverse\<close> true, the path whose metadata cannot
  be read comes first and a readable path comes last.
\<close>

theorem unreadable_first_when_reversed:
  "fs_stat (dir_env txt_csv_entries) (in_data ''gone.txt'') = None
   \<and> sort_paths (dir_env txt_csv_entries) ''size'' True
         [in_data ''a.txt'', in_data ''gone.txt'', in_data ''c.csv'']
       = [in_data ''gone.txt'', in_data ''c.csv'', in_data ''a.txt'']"
  by code_simp

end
